theory Spec2Isabelle
  imports Main "HOL-Library.Sublist"
begin

section \<open>JavaScript values\<close>

text \<open>
  The values that reach the configuration code: front-matter attributes, shortcode
  arguments and the environment flag. Primitives are compared by value, objects by
  reference (\<open>JObj\<close> carries the reference). Numbers are whole numbers here: the code
  compares a value only with \<^verbatim>\<open>true\<close> and with a string, so a number is never equal to
  what it is compared with.
\<close>

datatype jsval =
    JUndefined
  | JNull
  | JBool bool
  | JNum int
  | JStr string
  | JObj nat

text \<open>\<^verbatim>\<open>a === b\<close> and \<^verbatim>\<open>a !== b\<close>: no coercion.\<close>

definition strict_eq :: "jsval \<Rightarrow> jsval \<Rightarrow> bool" where
  "strict_eq a b = (a = b)"

definition strict_neq :: "jsval \<Rightarrow> jsval \<Rightarrow> bool" where
  "strict_neq a b = (\<not> strict_eq a b)"

text \<open>
  An object literal or parsed front matter is a list of key/value pairs;
  \<^verbatim>\<open>obj.key\<close> on a key the object does not have is \<^verbatim>\<open>undefined\<close>.
\<close>

type_synonym jsobject = "(string \<times> jsval) list"

definition get_prop :: "jsobject \<Rightarrow> string \<Rightarrow> jsval" where
  "get_prop obj k = (case map_of obj k of None \<Rightarrow> JUndefined | Some v \<Rightarrow> v)"

section \<open>The collection filter\<close>

text \<open>
  A content item as the generator hands it to a collection callback: the path of its
  source file and its data, which holds the front-matter attributes.
\<close>

record item =
  inputPath :: string
  data :: jsobject

text \<open>
  The collection API is the generator's. The configuration code calls one method of it,
  \<^verbatim>\<open>getFilteredByGlob\<close>, so the API is a parameter of the model: a record holding that
  method.
\<close>

record collectionApi =
  getFilteredByGlob :: "string \<Rightarrow> item list"

text \<open>
  The callback registered under the name \<^verbatim>\<open>posts\<close>:
  \<^verbatim>\<open>
  function (collectionApi) {
    return collectionApi
      .getFilteredByGlob('_posts/*.md')
      .filter(post => post.data.hidden !== true);
  }
  \<close>
\<close>

definition posts :: "collectionApi \<Rightarrow> item list" where
  "posts collectionApi =
     filter (\<lambda>post. strict_neq (get_prop (data post) ''hidden'') (JBool True))
       (getFilteredByGlob collectionApi ''_posts/*.md'')"

section \<open>The image shortcode\<close>

text \<open>
  The second argument of \<^verbatim>\<open>Image\<close> and the attribute object handed to
  \<^verbatim>\<open>Image.generateHTML\<close>.
\<close>

record image_options =
  widths :: "nat list"
  outputDir :: string

record image_attributes =
  alt :: jsval
  sizes :: jsval

text \<open>
  The image library (\<^verbatim>\<open>require("@11ty/eleventy-img")\<close>) is external, so it is a parameter:
  \<open>Image_fn\<close> is the asynchronous call \<^verbatim>\<open>Image(src, options)\<close>, which reads the source and
  writes the resized files (a step on the world \<open>'w\<close>) and either rejects with an error
  \<open>'e\<close> or resolves to metadata \<open>'m\<close>; \<open>generateHTML\<close> is the synchronous
  \<^verbatim>\<open>Image.generateHTML(metadata, attributes)\<close>, which returns markup \<open>'h\<close> or throws.
\<close>

record ('e, 'w, 'm, 'h) Image_module =
  Image_fn :: "jsval \<Rightarrow> image_options \<Rightarrow> 'w \<Rightarrow> ('e + 'm) \<times> 'w"
  generateHTML :: "'m \<Rightarrow> image_attributes \<Rightarrow> 'e + 'h"

text \<open>
  What the shortcode asks of the library is observable: every call is appended, with its
  arguments, to a log that is threaded through the run next to the world.
\<close>

datatype 'm lib_call =
    ImageCall jsval image_options
  | GenerateHTMLCall 'm image_attributes

record ('w, 'm) run_state =
  world :: 'w
  calls :: "'m lib_call list"

definition await_Image ::
  "('e, 'w, 'm, 'h) Image_module \<Rightarrow> jsval \<Rightarrow> image_options \<Rightarrow>
     ('w, 'm) run_state \<Rightarrow> ('e + 'm) \<times> ('w, 'm) run_state" where
  "await_Image lib src opts s =
     (case Image_fn lib src opts (world s) of
        (r, w') \<Rightarrow> (r, \<lparr>world = w', calls = calls s @ [ImageCall src opts]\<rparr>))"

definition call_generateHTML ::
  "('e, 'w, 'm, 'h) Image_module \<Rightarrow> 'm \<Rightarrow> image_attributes \<Rightarrow>
     ('w, 'm) run_state \<Rightarrow> ('e + 'h) \<times> ('w, 'm) run_state" where
  "call_generateHTML lib metadata attrs s =
     (generateHTML lib metadata attrs,
      \<lparr>world = world s, calls = calls s @ [GenerateHTMLCall metadata attrs]\<rparr>)"

text \<open>
  \<^verbatim>\<open>
  const imageShortcode = async (src, alt, sizes) => {
    const metadata = await Image(src, {
      widths: [400, 800, 1000, 1200, 1450],
      outputDir: './_site/img/',
    });
    const imageAttributes = { alt, sizes };
    return Image.generateHTML(metadata, imageAttributes);
  };
  \<close>
  The result of the asynchronous function is \<open>Inl\<close> when its promise rejects and \<open>Inr\<close>
  when it resolves. There is no \<^verbatim>\<open>try\<close> in the source: an \<^verbatim>\<open>await\<close> on a rejected promise
  ends the function with that rejection. The parameters \<^verbatim>\<open>alt\<close> and \<^verbatim>\<open>sizes\<close> are written
  \<open>alt'\<close> and \<open>sizes'\<close>, next to the attribute object's keys \<open>alt\<close> and \<open>sizes\<close>.
\<close>

definition imageShortcode ::
  "('e, 'w, 'm, 'h) Image_module \<Rightarrow> jsval \<Rightarrow> jsval \<Rightarrow> jsval \<Rightarrow>
     ('w, 'm) run_state \<Rightarrow> ('e + 'h) \<times> ('w, 'm) run_state" where
  "imageShortcode lib src alt' sizes' s =
     (case await_Image lib src
             \<lparr>widths = [400, 800, 1000, 1200, 1450], outputDir = ''./_site/img/''\<rparr> s of
        (Inl e, s') \<Rightarrow> (Inl e, s')
      | (Inr metadata, s') \<Rightarrow>
          (let imageAttributes = \<lparr>alt = alt', sizes = sizes'\<rparr>
           in call_generateHTML lib metadata imageAttributes s'))"

section \<open>The configuration function\<close>

text \<open>
  Modelled from the spec: the generator's configuration object and the methods that the
  configuration function calls on it, which are the generator's and not part of the
  repository's sources (section 2: the configuration ``registers the collection filter
  and the image shortcode with the generator''; section 4.3: the alias table is ``a
  static mapping of two symbolic names to concrete template identifiers''). There is
  one registry per extension point and each method stores its arguments; the plugin is
  an opaque value \<open>'p\<close> and a shortcode an opaque function \<open>'sc\<close>.
\<close>

record ('p, 'sc) eleventyConfig =
  collections :: "string \<rightharpoonup> (collectionApi \<Rightarrow> item list)"
  nunjucksAsyncShortcodes :: "string \<rightharpoonup> 'sc"
  layoutAliases :: "string \<rightharpoonup> string"
  addedPlugins :: "'p list"

definition initial_config :: "('p, 'sc) eleventyConfig" where
  "initial_config =
     \<lparr>collections = Map.empty, nunjucksAsyncShortcodes = Map.empty,
      layoutAliases = Map.empty, addedPlugins = []\<rparr>"

definition addCollection ::
  "string \<Rightarrow> (collectionApi \<Rightarrow> item list) \<Rightarrow> ('p, 'sc) eleventyConfig \<Rightarrow> ('p, 'sc) eleventyConfig" where
  "addCollection name callback cfg = cfg\<lparr>collections := (collections cfg)(name \<mapsto> callback)\<rparr>"

definition addNunjucksAsyncShortcode ::
  "string \<Rightarrow> 'sc \<Rightarrow> ('p, 'sc) eleventyConfig \<Rightarrow> ('p, 'sc) eleventyConfig" where
  "addNunjucksAsyncShortcode name callback cfg =
     cfg\<lparr>nunjucksAsyncShortcodes := (nunjucksAsyncShortcodes cfg)(name \<mapsto> callback)\<rparr>"

definition addLayoutAlias ::
  "string \<Rightarrow> string \<Rightarrow> ('p, 'sc) eleventyConfig \<Rightarrow> ('p, 'sc) eleventyConfig" where
  "addLayoutAlias from_name to_path cfg =
     cfg\<lparr>layoutAliases := (layoutAliases cfg)(from_name \<mapsto> to_path)\<rparr>"

definition addPlugin :: "'p \<Rightarrow> ('p, 'sc) eleventyConfig \<Rightarrow> ('p, 'sc) eleventyConfig" where
  "addPlugin plugin cfg = cfg\<lparr>addedPlugins := addedPlugins cfg @ [plugin]\<rparr>"

record config_options =
  markdownTemplateEngine :: string

text \<open>
  \<^verbatim>\<open>
  module.exports = function(eleventyConfig) {
    eleventyConfig.addCollection('posts', function (collectionApi) { ... });
    eleventyConfig.addNunjucksAsyncShortcode('image', imageShortcode);
    eleventyConfig.addLayoutAlias('default', 'layouts/default.njk');
    eleventyConfig.addLayoutAlias('post', 'layouts/post.njk');
    eleventyConfig.addPlugin(syntaxHighlight);
    return { markdownTemplateEngine: 'njk' };
  };
  \<close>
  The two required modules, the syntax-highlighting plugin and the image library, are
  parameters. The function returns the updated configuration object with its result.
\<close>

definition eleventy_exports ::
  "'p \<Rightarrow> ('e, 'w, 'm, 'h) Image_module \<Rightarrow>
     ('p, jsval \<Rightarrow> jsval \<Rightarrow> jsval \<Rightarrow> ('w, 'm) run_state \<Rightarrow> ('e + 'h) \<times> ('w, 'm) run_state) eleventyConfig \<Rightarrow>
     ('p, jsval \<Rightarrow> jsval \<Rightarrow> jsval \<Rightarrow> ('w, 'm) run_state \<Rightarrow> ('e + 'h) \<times> ('w, 'm) run_state) eleventyConfig
       \<times> config_options" where
  "eleventy_exports syntaxHighlight lib eleventyConfig =
     (let c1 = addCollection ''posts'' posts eleventyConfig;
          c2 = addNunjucksAsyncShortcode ''image'' (imageShortcode lib) c1;
          c3 = addLayoutAlias ''default'' ''layouts/default.njk'' c2;
          c4 = addLayoutAlias ''post'' ''layouts/post.njk'' c3;
          c5 = addPlugin syntaxHighlight c4
      in (c5, \<lparr>markdownTemplateEngine = ''njk''\<rparr>))"

section \<open>The CSS pipeline configuration\<close>

text \<open>
  The four plugins that \<^verbatim>\<open>postcss.config.js\<close> requires. \<^verbatim>\<open>cssnano\<close> is called with an options
  object. An entry of the \<^verbatim>\<open>plugins\<close> array is a plugin or the value \<^verbatim>\<open>false\<close>.
\<close>

datatype postcss_plugin =
    postcss_import
  | tailwindcss
  | postcss_nested
  | cssnano jsobject

datatype plugin_entry =
    Plugin postcss_plugin
  | JFalse

record postcss_options =
  plugins :: "plugin_entry list"

text \<open>
  \<^verbatim>\<open>
  module.exports = ({ env }) => ({
    plugins: [
      require('postcss-import'),
      require('tailwindcss'),
      require('postcss-nested'),
      env === 'production' ? require('cssnano')({ preset: 'default' }) : false,
    ],
  });
  \<close>
  The argument is the context object; \<^verbatim>\<open>env\<close> is its property of that name.
\<close>

definition postcss_exports :: "jsobject \<Rightarrow> postcss_options" where
  "postcss_exports ctx =
     (let env = get_prop ctx ''env'' in
      \<lparr>plugins =
         [Plugin postcss_import,
          Plugin tailwindcss,
          Plugin postcss_nested,
          if strict_eq env (JStr ''production'')
          then Plugin (cssnano [(''preset'', JStr ''default'')])
          else JFalse]\<rparr>)"

section \<open>The generator and the CSS processor around the configuration\<close>

text \<open>
  Modelled from the spec: the matching behind \<^verbatim>\<open>getFilteredByGlob\<close>, which is the
  generator's and not part of the repository's sources (section 4.2: ``the ordered
  subset whose source path matches a fixed glob''). Paths and globs are written
  relative to the input directory. A pattern character matches itself, and \<^verbatim>\<open>*\<close> matches
  any run of characters within one path segment, that is, without a \<^verbatim>\<open>/\<close>.
\<close>

fun glob_match :: "string \<Rightarrow> string \<Rightarrow> bool" where
  "glob_match [] s = (s = [])"
| "glob_match (p # ps) [] = (p = CHR ''*'' \<and> glob_match ps [])"
| "glob_match (p # ps) (c # cs) =
     (if p = CHR ''*''
      then glob_match ps (c # cs) \<or> (c \<noteq> CHR ''/'' \<and> glob_match (p # ps) cs)
      else p = c \<and> glob_match ps cs)"

text \<open>
  Modelled from the spec: a collection API over the list of all content items, in the
  generator's own order, whose \<^verbatim>\<open>getFilteredByGlob\<close> keeps the items whose path matches.
\<close>

definition glob_collectionApi :: "item list \<Rightarrow> collectionApi" where
  "glob_collectionApi items =
     \<lparr>getFilteredByGlob = (\<lambda>glob. filter (\<lambda>it. glob_match glob (inputPath it)) items)\<rparr>"

text \<open>
  Modelled from the spec: the CSS processor that consumes the configuration, which is
  not part of the repository's sources (section 4.4: ``a fixed, ordered chain of
  source-to-source stylesheet transforms'', ``each stage is a pure function over a
  stylesheet''). The entries that are \<^verbatim>\<open>false\<close> are no stage; the others run in the order
  of the array, \<open>stage p\<close> being the transform of plugin \<open>p\<close>.
\<close>

definition active_plugins :: "postcss_options \<Rightarrow> postcss_plugin list" where
  "active_plugins cfg =
     concat (map (\<lambda>entry. case entry of Plugin p \<Rightarrow> [p] | JFalse \<Rightarrow> []) (plugins cfg))"

text \<open>
  Modelled from the spec: the run of the chain over a stylesheet, one stage after the
  other (section 4.4), as for \<open>active_plugins\<close>.
\<close>

definition run_pipeline ::
  "(postcss_plugin \<Rightarrow> 'css \<Rightarrow> 'css) \<Rightarrow> postcss_options \<Rightarrow> 'css \<Rightarrow> 'css" where
  "run_pipeline stage cfg css = fold stage (active_plugins cfg) css"

text \<open>
  Modelled from the spec: the generator's rendering, which is not part of the
  repository's sources (section 2: the shortcode is invoked ``once per image reference
  encountered''; section 7: ``no error kind is retried or recovered locally''). An image
  reference is the triple of the shortcode's arguments; the references are taken one
  after the other and the first rejection ends the rendering.
\<close>

fun render_images ::
  "('e, 'w, 'm, 'h) Image_module \<Rightarrow> (jsval \<times> jsval \<times> jsval) list \<Rightarrow>
     ('w, 'm) run_state \<Rightarrow> ('e + 'h list) \<times> ('w, 'm) run_state" where
  "render_images lib [] s = (Inr [], s)"
| "render_images lib ((src, alt', sizes') # refs) s =
     (case imageShortcode lib src alt' sizes' s of
        (Inl e, s') \<Rightarrow> (Inl e, s')
      | (Inr html, s') \<Rightarrow>
          (case render_images lib refs s' of
             (Inl e, s'') \<Rightarrow> (Inl e, s'')
           | (Inr htmls, s'') \<Rightarrow> (Inr (html # htmls), s'')))"

text \<open>
  Modelled from the spec: the outcome of the build command (section 7: ``a non-zero
  exit from the build command'', ``there is no partial-output mode''): the exit code and
  the markup that is published.
\<close>

record 'h build_result =
  exitCode :: nat
  published :: "'h list"

definition build ::
  "('e, 'w, 'm, 'h) Image_module \<Rightarrow> (jsval \<times> jsval \<times> jsval) list \<Rightarrow>
     ('w, 'm) run_state \<Rightarrow> 'h build_result" where
  "build lib refs s =
     (case fst (render_images lib refs s) of
        Inl e \<Rightarrow> \<lparr>exitCode = 1, published = []\<rparr>
      | Inr htmls \<Rightarrow> \<lparr>exitCode = 0, published = htmls\<rparr>)"

section \<open>Example inputs\<close>

text \<open>
  Two posts, one of them flagged hidden, and a collection API that lists both for the
  glob of the configuration.
\<close>

definition visible_post :: item where
  "visible_post =
     \<lparr>inputPath = ''_posts/2022-09-10-vuejs-autosave.md'',
      data = [(''layout'', JStr ''post''),
              (''title'', JStr ''Autosave forms with the Vue.js composition API''),
              (''description'', JStr ''Using debounce and a promise queue.'')]\<rparr>"

definition hidden_post :: item where
  "hidden_post =
     \<lparr>inputPath = ''_posts/draft.md'',
      data = [(''layout'', JStr ''post''), (''hidden'', JBool True)]\<rparr>"

definition example_api :: collectionApi where
  "example_api =
     \<lparr>getFilteredByGlob =
        (\<lambda>glob. if glob = ''_posts/*.md'' then [visible_post, hidden_post] else [])\<rparr>"

text \<open>
  All content items of a site: the two posts, a Markdown file in a subdirectory of
  \<^verbatim>\<open>_posts\<close> and a file there that is not Markdown.
\<close>

definition nested_post :: item where
  "nested_post = \<lparr>inputPath = ''_posts/2021/nested.md'', data = [(''layout'', JStr ''post'')]\<rparr>"

definition text_note :: item where
  "text_note = \<lparr>inputPath = ''_posts/notes.txt'', data = []\<rparr>"

definition example_items :: "item list" where
  "example_items = [visible_post, nested_post, hidden_post, text_note]"

text \<open>
  A stand-in for the image library. The world maps the paths of the existing source
  files to their content; the metadata of an image is its content with the requested
  options, and the markup is the metadata with the attributes. A path that is not in
  the world is rejected, and so is markup without an \<^verbatim>\<open>alt\<close> attribute.
\<close>

datatype stub_error = NotFound jsval | MissingAlt

definition stub_Image ::
  "(stub_error, (jsval \<times> nat) list, nat \<times> image_options,
    (nat \<times> image_options) \<times> image_attributes) Image_module" where
  "stub_Image =
     \<lparr>Image_fn = (\<lambda>src opts w.
         (case map_of w src of None \<Rightarrow> Inl (NotFound src) | Some c \<Rightarrow> Inr (c, opts), w)),
      generateHTML = (\<lambda>metadata attrs.
         if alt attrs = JUndefined then Inl MissingAlt else Inr (metadata, attrs))\<rparr>"

definition stub_state :: "((jsval \<times> nat) list, nat \<times> image_options) run_state" where
  "stub_state =
     \<lparr>world = [(JStr ''./img/flex-grow-9999-hack/before.png'', 7)], calls = []\<rparr>"

section \<open>Properties of the collection filter\<close>

lemma strict_neq_true_iff: "strict_neq v (JBool True) = (v \<noteq> JBool True)"
  by (simp add: strict_neq_def strict_eq_def)

lemma get_prop_absent: "map_of obj k = None \<Longrightarrow> get_prop obj k = JUndefined"
  by (simp add: get_prop_def)

lemma count_list_filter:
  "count_list (filter Q xs) x = (if Q x then count_list xs x else 0)"
  by (induction xs) auto

lemma posts_count:
  "count_list (posts api) P =
     (if get_prop (data P) ''hidden'' = JBool True then 0
      else count_list (getFilteredByGlob api ''_posts/*.md'') P)"
  by (simp add: posts_def count_list_filter strict_neq_true_iff)

text \<open>
  C8. The derived collection is a subsequence of the list the generator returns for the
  glob: the filter keeps the generator's order and neither reorders, inserts nor
  duplicates an item.
\<close>

theorem posts_subseq:
  "subseq (posts api) (getFilteredByGlob api ''_posts/*.md'')"
  unfolding posts_def by (rule subseq_filter_left)

text \<open>
  C1. An item that the generator lists once for the glob \<^verbatim>\<open>_posts/*.md\<close> occurs in the
  derived collection exactly once when its \<^verbatim>\<open>hidden\<close> attribute is not \<^verbatim>\<open>true\<close>, and not at
  all when it is \<^verbatim>\<open>true\<close>.
\<close>

theorem posts_hidden_absent_others_once:
  assumes "count_list (getFilteredByGlob api ''_posts/*.md'') P = 1"
  shows "count_list (posts api) P =
           (if get_prop (data P) ''hidden'' = JBool True then 0 else 1)"
  using assms by (simp add: posts_count)

theorem posts_hidden_absent_others_once_witness:
  "count_list (getFilteredByGlob example_api ''_posts/*.md'') visible_post = 1
   \<and> count_list (posts example_api) visible_post = 1
   \<and> count_list (getFilteredByGlob example_api ''_posts/*.md'') hidden_post = 1
   \<and> count_list (posts example_api) hidden_post = 0"
  using posts_hidden_absent_others_once [of example_api visible_post]
    posts_hidden_absent_others_once [of example_api hidden_post]
  by (simp add: example_api_def visible_post_def hidden_post_def get_prop_def)

text \<open>
  C2. An item listed for the glob whose \<^verbatim>\<open>hidden\<close> attribute is undefined, because the
  front matter does not have it or because there is no front matter, is treated as not
  hidden: it is in the derived collection.
\<close>

theorem posts_undefined_hidden_included:
  assumes "P \<in> set (getFilteredByGlob api ''_posts/*.md'')"
    and "get_prop (data P) ''hidden'' = JUndefined"
  shows "P \<in> set (posts api)"
  using assms by (simp add: posts_def strict_neq_true_iff)

theorem posts_undefined_hidden_included_witness:
  "visible_post \<in> set (getFilteredByGlob example_api ''_posts/*.md'')
   \<and> get_prop (data visible_post) ''hidden'' = JUndefined
   \<and> get_prop (data \<lparr>inputPath = ''_posts/plain.md'', data = []\<rparr>) ''hidden'' = JUndefined
   \<and> visible_post \<in> set (posts example_api)"
  using posts_undefined_hidden_included [of visible_post example_api]
  by (simp add: example_api_def visible_post_def hidden_post_def get_prop_def)

section \<open>The glob of the collection\<close>

text \<open>
  What a pattern matches, by its shape: a leading \<^verbatim>\<open>*\<close> takes a prefix without \<^verbatim>\<open>/\<close>, and
  a leading run of ordinary characters takes exactly itself.
\<close>

lemma glob_match_star:
  "glob_match (CHR ''*'' # ps) s =
     (\<exists>a t. s = a @ t \<and> CHR ''/'' \<notin> set a \<and> glob_match ps t)"
proof (induction s)
  case Nil
  then show ?case by simp
next
  case (Cons c cs)
  show ?case
  proof
    assume "glob_match (CHR ''*'' # ps) (c # cs)"
    then consider "glob_match ps (c # cs)"
      | "c \<noteq> CHR ''/''" "glob_match (CHR ''*'' # ps) cs"
      by auto
    then show "\<exists>a t. c # cs = a @ t \<and> CHR ''/'' \<notin> set a \<and> glob_match ps t"
    proof cases
      case 1
      then have "c # cs = [] @ (c # cs) \<and> CHR ''/'' \<notin> set [] \<and> glob_match ps (c # cs)"
        by simp
      then show ?thesis by blast
    next
      case 2
      with Cons.IH obtain a t where "cs = a @ t" "CHR ''/'' \<notin> set a" "glob_match ps t"
        by auto
      with 2 have "c # cs = (c # a) @ t \<and> CHR ''/'' \<notin> set (c # a) \<and> glob_match ps t"
        by simp
      then show ?thesis by blast
    qed
  next
    assume "\<exists>a t. c # cs = a @ t \<and> CHR ''/'' \<notin> set a \<and> glob_match ps t"
    then obtain a t where at: "c # cs = a @ t" "CHR ''/'' \<notin> set a" "glob_match ps t"
      by blast
    show "glob_match (CHR ''*'' # ps) (c # cs)"
    proof (cases a)
      case Nil
      with at have "glob_match ps (c # cs)" by simp
      then show ?thesis by simp
    next
      case (Cons d ds)
      with at have "c = d" "cs = ds @ t" "CHR ''/'' \<notin> set ds" "d \<noteq> CHR ''/''"
        by auto
      with at Cons.IH show ?thesis by auto
    qed
  qed
qed

lemma glob_match_literal:
  "CHR ''*'' \<notin> set lit \<Longrightarrow>
     glob_match (lit @ ps) s = (\<exists>t. s = lit @ t \<and> glob_match ps t)"
proof (induction lit arbitrary: s)
  case Nil
  then show ?case by simp
next
  case (Cons p lit)
  then show ?case by (cases s) auto
qed


lemma glob_match_exact:
  "CHR ''*'' \<notin> set lit \<Longrightarrow> glob_match lit s = (s = lit)"
  using glob_match_literal [of lit "[]" s] by auto

lemma glob_match_posts:
  "glob_match ''_posts/*.md'' s =
     (\<exists>name. s = ''_posts/'' @ name @ ''.md'' \<and> CHR ''/'' \<notin> set name)"
proof -
  have prefix: "glob_match ''_posts/*.md'' s =
      (\<exists>t. s = ''_posts/'' @ t \<and> glob_match (CHR ''*'' # ''.md'') t)"
    using glob_match_literal [of "''_posts/''" "CHR ''*'' # ''.md''" s] by simp
  have star: "\<And>t. glob_match (CHR ''*'' # ''.md'') t =
      (\<exists>a u. t = a @ u \<and> CHR ''/'' \<notin> set a \<and> glob_match ''.md'' u)"
    by (rule glob_match_star)
  have ext: "\<And>u. glob_match ''.md'' u = (u = ''.md'')"
    by (rule glob_match_exact) simp
  show ?thesis
    unfolding prefix star ext by blast
qed

lemma posts_glob_members:
  "P \<in> set (posts (glob_collectionApi items)) =
     (P \<in> set items \<and> glob_match ''_posts/*.md'' (inputPath P)
      \<and> get_prop (data P) ''hidden'' \<noteq> JBool True)"
  by (simp add: posts_def glob_collectionApi_def strict_neq_true_iff del: glob_match.simps)

text \<open>
  Over the modelled collection API the derived collection is a subsequence of the list
  of all content items.
\<close>

lemma posts_glob_subseq: "subseq (posts (glob_collectionApi items)) items"
proof -
  have "subseq (posts (glob_collectionApi items))
          (getFilteredByGlob (glob_collectionApi items) ''_posts/*.md'')"
    unfolding posts_def by (rule subseq_filter_left)
  also have "subseq (getFilteredByGlob (glob_collectionApi items) ''_posts/*.md'') items"
    by (simp add: glob_collectionApi_def del: glob_match.simps)
  finally show ?thesis .
qed

text \<open>
  C9. The glob of the collection is the literal \<^verbatim>\<open>_posts/*.md\<close>, which does not descend
  into directories: with the generator's matching as modelled above, a file in a
  subdirectory of \<^verbatim>\<open>_posts\<close> and a file whose name does not end in \<^verbatim>\<open>.md\<close> are never in the
  derived collection, whatever their front matter is.
\<close>

theorem posts_glob_not_recursive:
  "(inputPath P = ''_posts/'' @ dir @ ''/'' @ file \<longrightarrow>
      P \<notin> set (posts (glob_collectionApi items)))
   \<and> (\<not> suffix ''.md'' (inputPath P) \<longrightarrow> P \<notin> set (posts (glob_collectionApi items)))"
proof (intro conjI impI)
  assume sub: "inputPath P = ''_posts/'' @ dir @ ''/'' @ file"
  show "P \<notin> set (posts (glob_collectionApi items))"
  proof
    assume "P \<in> set (posts (glob_collectionApi items))"
    then have "glob_match ''_posts/*.md'' (inputPath P)"
      by (simp only: posts_glob_members)
    then obtain name where name: "inputPath P = ''_posts/'' @ name @ ''.md''"
      and noslash: "CHR ''/'' \<notin> set name"
      unfolding glob_match_posts by blast
    from sub name have eq: "dir @ ''/'' @ file = name @ ''.md''" by simp
    have "CHR ''/'' \<in> set (dir @ ''/'' @ file)" by simp
    then have "CHR ''/'' \<in> set (name @ ''.md'')" by (simp only: eq)
    with noslash show False by simp
  qed
next
  assume ext: "\<not> suffix ''.md'' (inputPath P)"
  show "P \<notin> set (posts (glob_collectionApi items))"
  proof
    assume "P \<in> set (posts (glob_collectionApi items))"
    then have "glob_match ''_posts/*.md'' (inputPath P)"
      by (simp only: posts_glob_members)
    then obtain name where "inputPath P = (''_posts/'' @ name) @ ''.md''"
      unfolding glob_match_posts by auto
    then have "suffix ''.md'' (inputPath P)"
      by (simp only: suffixI)
    with ext show False by simp
  qed
qed

theorem posts_glob_not_recursive_witness:
  "inputPath nested_post = ''_posts/'' @ ''2021'' @ ''/'' @ ''nested.md''
   \<and> nested_post \<notin> set (posts (glob_collectionApi example_items))
   \<and> \<not> suffix ''.md'' (inputPath text_note)
   \<and> text_note \<notin> set (posts (glob_collectionApi example_items))
   \<and> posts (glob_collectionApi example_items) = [visible_post]"
  using posts_glob_not_recursive [of nested_post "''2021''" "''nested.md''" example_items]
    posts_glob_not_recursive [of text_note _ _ example_items]
  by (simp add: posts_def glob_collectionApi_def example_items_def visible_post_def
      nested_post_def hidden_post_def text_note_def get_prop_def strict_neq_true_iff suffix_def)

section \<open>Properties of the image shortcode\<close>

lemma imageShortcode_result:
  "fst (imageShortcode lib src alt' sizes' s) =
     (case fst (Image_fn lib src
                  \<lparr>widths = [400, 800, 1000, 1200, 1450], outputDir = ''./_site/img/''\<rparr> (world s)) of
        Inl e \<Rightarrow> Inl e
      | Inr metadata \<Rightarrow> generateHTML lib metadata \<lparr>alt = alt', sizes = sizes'\<rparr>)"
  by (simp add: imageShortcode_def await_Image_def call_generateHTML_def Let_def
      split: prod.splits sum.splits)

lemma imageShortcode_calls:
  "calls (snd (imageShortcode lib src alt' sizes' s)) =
     calls s @
       ImageCall src \<lparr>widths = [400, 800, 1000, 1200, 1450], outputDir = ''./_site/img/''\<rparr> #
       (case fst (Image_fn lib src
                    \<lparr>widths = [400, 800, 1000, 1200, 1450], outputDir = ''./_site/img/''\<rparr> (world s)) of
          Inl e \<Rightarrow> []
        | Inr metadata \<Rightarrow> [GenerateHTMLCall metadata \<lparr>alt = alt', sizes = sizes'\<rparr>])"
  by (simp add: imageShortcode_def await_Image_def call_generateHTML_def Let_def
      split: prod.splits sum.splits)

lemma imageShortcode_world:
  "world (snd (imageShortcode lib src alt' sizes' s)) =
     snd (Image_fn lib src
            \<lparr>widths = [400, 800, 1000, 1200, 1450], outputDir = ''./_site/img/''\<rparr> (world s))"
  by (simp add: imageShortcode_def await_Image_def call_generateHTML_def Let_def
      split: prod.splits sum.splits)

text \<open>
  C3. Whatever the arguments, the shortcode first calls the image library with the
  source path, the width list \<open>[400, 800, 1000, 1200, 1450]\<close> and the output directory
  \<^verbatim>\<open>./_site/img/\<close>. When that call yields metadata, the only other call asks for the markup
  of that metadata with the given \<^verbatim>\<open>alt\<close> and \<^verbatim>\<open>sizes\<close> attributes, and the shortcode returns
  what the library returns for it.
\<close>

theorem imageShortcode_fixed_request:
  "calls (snd (imageShortcode lib src alt' sizes' s)) =
     calls s @
       ImageCall src \<lparr>widths = [400, 800, 1000, 1200, 1450], outputDir = ''./_site/img/''\<rparr> #
       (case fst (Image_fn lib src
                    \<lparr>widths = [400, 800, 1000, 1200, 1450], outputDir = ''./_site/img/''\<rparr> (world s)) of
          Inl e \<Rightarrow> []
        | Inr metadata \<Rightarrow> [GenerateHTMLCall metadata \<lparr>alt = alt', sizes = sizes'\<rparr>])
   \<and> fst (imageShortcode lib src alt' sizes' s) =
       (case fst (Image_fn lib src
                    \<lparr>widths = [400, 800, 1000, 1200, 1450], outputDir = ''./_site/img/''\<rparr> (world s)) of
          Inl e \<Rightarrow> Inl e
        | Inr metadata \<Rightarrow> generateHTML lib metadata \<lparr>alt = alt', sizes = sizes'\<rparr>)"
  by (simp only: imageShortcode_calls imageShortcode_result simp_thms)

text \<open>
  C6. Two invocations of the shortcode with the same arguments return the same result
  when the source file has the same content at both, for an image library whose answer
  for a source path and the fixed options depends on the world only through the content
  of that source. \<open>content w src\<close> is the content of \<open>src\<close> in the world \<open>w\<close>; the two
  states may be any two, in particular the one before and the one after an invocation.
\<close>

theorem imageShortcode_idempotent:
  assumes "\<forall>w w'. content w src = content w' src \<longrightarrow>
             fst (Image_fn lib src
                    \<lparr>widths = [400, 800, 1000, 1200, 1450], outputDir = ''./_site/img/''\<rparr> w) =
             fst (Image_fn lib src
                    \<lparr>widths = [400, 800, 1000, 1200, 1450], outputDir = ''./_site/img/''\<rparr> w')"
    and "content (world s2) src = content (world s1) src"
  shows "fst (imageShortcode lib src alt' sizes' s2) = fst (imageShortcode lib src alt' sizes' s1)"
proof -
  from assms have
    "fst (Image_fn lib src
            \<lparr>widths = [400, 800, 1000, 1200, 1450], outputDir = ''./_site/img/''\<rparr> (world s2)) =
     fst (Image_fn lib src
            \<lparr>widths = [400, 800, 1000, 1200, 1450], outputDir = ''./_site/img/''\<rparr> (world s1))"
    by blast
  then show ?thesis
    by (simp only: imageShortcode_result)
qed

theorem imageShortcode_idempotent_witness:
  "fst (imageShortcode stub_Image (JStr ''./img/flex-grow-9999-hack/before.png'')
          (JStr ''A sketch'') (JStr ''100vw'')
          (snd (imageShortcode stub_Image (JStr ''./img/flex-grow-9999-hack/before.png'')
                  (JStr ''A sketch'') (JStr ''100vw'') stub_state))) =
   fst (imageShortcode stub_Image (JStr ''./img/flex-grow-9999-hack/before.png'')
          (JStr ''A sketch'') (JStr ''100vw'') stub_state)
   \<and> map_of (world (snd (imageShortcode stub_Image (JStr ''./img/flex-grow-9999-hack/before.png'')
                  (JStr ''A sketch'') (JStr ''100vw'') stub_state)))
         (JStr ''./img/flex-grow-9999-hack/before.png'') =
       map_of (world stub_state) (JStr ''./img/flex-grow-9999-hack/before.png'')
   \<and> fst (imageShortcode stub_Image (JStr ''./img/flex-grow-9999-hack/before.png'')
          (JStr ''A sketch'') (JStr ''100vw'') stub_state) =
       Inr ((7, \<lparr>widths = [400, 800, 1000, 1200, 1450], outputDir = ''./_site/img/''\<rparr>),
            \<lparr>alt = JStr ''A sketch'', sizes = JStr ''100vw''\<rparr>)"
  using imageShortcode_idempotent
    [of map_of "JStr ''./img/flex-grow-9999-hack/before.png''" stub_Image
        "snd (imageShortcode stub_Image (JStr ''./img/flex-grow-9999-hack/before.png'')
                (JStr ''A sketch'') (JStr ''100vw'') stub_state)"
        stub_state "JStr ''A sketch''" "JStr ''100vw''"]
  by (simp add: imageShortcode_result imageShortcode_world stub_Image_def stub_state_def)

text \<open>
  A reference that stays missing makes the rendering fail, wherever it stands among the
  references: the references before it either fail themselves or leave it missing.
\<close>

lemma render_images_missing:
  assumes pres: "\<forall>w src' opts'. missing w \<longrightarrow> missing (snd (Image_fn lib src' opts' w))"
    and fails: "\<forall>w. missing w \<longrightarrow>
      isl (fst (Image_fn lib src
                  \<lparr>widths = [400, 800, 1000, 1200, 1450], outputDir = ''./_site/img/''\<rparr> w))"
  shows "missing (world s) \<Longrightarrow> (src, alt', sizes') \<in> set refs \<Longrightarrow>
           isl (fst (render_images lib refs s))"
proof (induction refs arbitrary: s)
  case Nil
  then show ?case by simp
next
  case (Cons r refs)
  obtain src0 alt0 sizes0 where r: "r = (src0, alt0, sizes0)"
    by (cases r) auto
  obtain res s' where run: "imageShortcode lib src0 alt0 sizes0 s = (res, s')"
    by (cases "imageShortcode lib src0 alt0 sizes0 s") auto
  show ?case
  proof (cases res)
    case (Inl e)
    with r run show ?thesis by simp
  next
    case (Inr html)
    have "r \<noteq> (src, alt', sizes')"
    proof
      assume "r = (src, alt', sizes')"
      with r have same: "src0 = src" by simp
      from fails Cons.prems(1) have
        "isl (fst (Image_fn lib src
                     \<lparr>widths = [400, 800, 1000, 1200, 1450], outputDir = ''./_site/img/''\<rparr> (world s)))"
        by blast
      then have "isl (fst (imageShortcode lib src alt0 sizes0 s))"
        by (auto simp add: imageShortcode_result split: sum.splits)
      with run same Inr show False by simp
    qed
    with Cons.prems(2) have mem: "(src, alt', sizes') \<in> set refs" by simp
    have "world s' = snd (Image_fn lib src0
             \<lparr>widths = [400, 800, 1000, 1200, 1450], outputDir = ''./_site/img/''\<rparr> (world s))"
      using imageShortcode_world [of lib src0 alt0 sizes0 s] run by simp
    with pres Cons.prems(1) have "missing (world s')" by simp
    from this mem have "isl (fst (render_images lib refs s'))" by (rule Cons.IH)
    with r run Inr show ?thesis
      by (auto split: prod.splits sum.splits)
  qed
qed

text \<open>
  C7. An error with which the image library rejects the call is the result of the
  shortcode: the library is called once and no markup is asked for. In the build as
  modelled above, a reference to a source that stays missing (\<open>missing w\<close>: the source
  does not resolve in the world \<open>w\<close>, which no library call changes, and the library
  rejects it there) ends the build with a non-zero exit code and nothing published.
\<close>

theorem imageShortcode_not_found_propagates:
  "(fst (Image_fn lib src
           \<lparr>widths = [400, 800, 1000, 1200, 1450], outputDir = ''./_site/img/''\<rparr> (world s)) = Inl e \<longrightarrow>
       fst (imageShortcode lib src alt' sizes' s) = Inl e
     \<and> calls (snd (imageShortcode lib src alt' sizes' s)) =
         calls s @
           [ImageCall src \<lparr>widths = [400, 800, 1000, 1200, 1450], outputDir = ''./_site/img/''\<rparr>])
   \<and> (missing (world s)
      \<and> (\<forall>w src' opts'. missing w \<longrightarrow> missing (snd (Image_fn lib src' opts' w)))
      \<and> (\<forall>w. missing w \<longrightarrow>
            isl (fst (Image_fn lib src
                        \<lparr>widths = [400, 800, 1000, 1200, 1450], outputDir = ''./_site/img/''\<rparr> w)))
      \<and> (src, alt', sizes') \<in> set refs \<longrightarrow>
        exitCode (build lib refs s) \<noteq> 0 \<and> published (build lib refs s) = [])"
proof (intro conjI impI)
  assume "fst (Image_fn lib src
           \<lparr>widths = [400, 800, 1000, 1200, 1450], outputDir = ''./_site/img/''\<rparr> (world s)) = Inl e"
  then show "fst (imageShortcode lib src alt' sizes' s) = Inl e"
    and "calls (snd (imageShortcode lib src alt' sizes' s)) =
         calls s @
           [ImageCall src \<lparr>widths = [400, 800, 1000, 1200, 1450], outputDir = ''./_site/img/''\<rparr>]"
    by (simp_all add: imageShortcode_result imageShortcode_calls)
next
  assume hyp: "missing (world s)
      \<and> (\<forall>w src' opts'. missing w \<longrightarrow> missing (snd (Image_fn lib src' opts' w)))
      \<and> (\<forall>w. missing w \<longrightarrow>
            isl (fst (Image_fn lib src
                        \<lparr>widths = [400, 800, 1000, 1200, 1450], outputDir = ''./_site/img/''\<rparr> w)))
      \<and> (src, alt', sizes') \<in> set refs"
  then have "isl (fst (render_images lib refs s))"
    using render_images_missing [of missing lib src s alt' sizes' refs] by blast
  then show "exitCode (build lib refs s) \<noteq> 0" and "published (build lib refs s) = []"
    by (auto simp add: build_def split: sum.splits)
qed

theorem imageShortcode_not_found_propagates_witness:
  "fst (Image_fn stub_Image (JStr ''./img/missing.png'')
          \<lparr>widths = [400, 800, 1000, 1200, 1450], outputDir = ''./_site/img/''\<rparr> (world stub_state)) =
     Inl (NotFound (JStr ''./img/missing.png''))
   \<and> fst (imageShortcode stub_Image (JStr ''./img/missing.png'') (JStr ''A sketch'') (JStr ''100vw'')
            stub_state) = Inl (NotFound (JStr ''./img/missing.png''))
   \<and> calls (snd (imageShortcode stub_Image (JStr ''./img/missing.png'') (JStr ''A sketch'')
                   (JStr ''100vw'') stub_state)) =
       [ImageCall (JStr ''./img/missing.png'')
          \<lparr>widths = [400, 800, 1000, 1200, 1450], outputDir = ''./_site/img/''\<rparr>]
   \<and> exitCode (build stub_Image
        [(JStr ''./img/flex-grow-9999-hack/before.png'', JStr ''Before'', JStr ''100vw''),
         (JStr ''./img/missing.png'', JStr ''A sketch'', JStr ''100vw'')] stub_state) = 1
   \<and> published (build stub_Image
        [(JStr ''./img/flex-grow-9999-hack/before.png'', JStr ''Before'', JStr ''100vw''),
         (JStr ''./img/missing.png'', JStr ''A sketch'', JStr ''100vw'')] stub_state) = []"
  using imageShortcode_not_found_propagates
    [of stub_Image "JStr ''./img/missing.png''" stub_state "NotFound (JStr ''./img/missing.png'')"
        "JStr ''A sketch''" "JStr ''100vw''"
        "\<lambda>w. map_of w (JStr ''./img/missing.png'') = None"
        "[(JStr ''./img/flex-grow-9999-hack/before.png'', JStr ''Before'', JStr ''100vw''),
          (JStr ''./img/missing.png'', JStr ''A sketch'', JStr ''100vw'')]"]
  by (simp add: stub_Image_def stub_state_def build_def imageShortcode_def await_Image_def
      call_generateHTML_def Let_def)

section \<open>Properties of the configuration function\<close>

lemma eleventy_exports_layoutAliases:
  "layoutAliases (fst (eleventy_exports syntaxHighlight lib cfg)) =
     (layoutAliases cfg)(''default'' \<mapsto> ''layouts/default.njk'', ''post'' \<mapsto> ''layouts/post.njk'')"
  by (simp add: eleventy_exports_def addCollection_def addNunjucksAsyncShortcode_def
      addLayoutAlias_def addPlugin_def)

lemma eleventy_exports_registrations:
  "collections (fst (eleventy_exports syntaxHighlight lib cfg)) ''posts'' = Some posts"
  "nunjucksAsyncShortcodes (fst (eleventy_exports syntaxHighlight lib cfg)) ''image'' =
     Some (imageShortcode lib)"
  "addedPlugins (fst (eleventy_exports syntaxHighlight lib cfg)) = addedPlugins cfg @ [syntaxHighlight]"
  "snd (eleventy_exports syntaxHighlight lib cfg) = \<lparr>markdownTemplateEngine = ''njk''\<rparr>"
  by (simp_all add: eleventy_exports_def addCollection_def addNunjucksAsyncShortcode_def
      addLayoutAlias_def addPlugin_def)

text \<open>
  C4. In the alias table that the configuration function leaves behind, \<^verbatim>\<open>default\<close>
  resolves to \<^verbatim>\<open>layouts/default.njk\<close> and \<^verbatim>\<open>post\<close> to \<^verbatim>\<open>layouts/post.njk\<close>. Starting from the
  empty table these are its only two entries, whatever the required modules are.
\<close>

theorem layout_alias_table:
  "layoutAliases (fst (eleventy_exports syntaxHighlight lib initial_config)) ''default'' =
     Some ''layouts/default.njk''
   \<and> layoutAliases (fst (eleventy_exports syntaxHighlight lib initial_config)) ''post'' =
     Some ''layouts/post.njk''
   \<and> dom (layoutAliases (fst (eleventy_exports syntaxHighlight lib initial_config))) =
     {''default'', ''post''}"
  by (auto simp add: eleventy_exports_layoutAliases initial_config_def)

section \<open>Properties of the CSS pipeline configuration\<close>

lemma active_plugins_exports:
  "active_plugins (postcss_exports ctx) =
     [postcss_import, tailwindcss, postcss_nested] @
       (if get_prop ctx ''env'' = JStr ''production''
        then [cssnano [(''preset'', JStr ''default'')]] else [])"
  by (simp add: active_plugins_def postcss_exports_def strict_eq_def)

text \<open>
  C5. For every environment flag the stages are import inlining, utility-class
  generation and nesting desugaring, in this order, followed by minification exactly
  when the flag is \<^verbatim>\<open>production\<close>. The output is then the minified output of the three
  stages, and otherwise the output of the three stages itself.
\<close>

theorem pipeline_order:
  "active_plugins (postcss_exports ctx) =
     [postcss_import, tailwindcss, postcss_nested] @
       (if get_prop ctx ''env'' = JStr ''production''
        then [cssnano [(''preset'', JStr ''default'')]] else [])
   \<and> run_pipeline stage (postcss_exports ctx) css =
       (let unminified = stage postcss_nested (stage tailwindcss (stage postcss_import css))
        in if get_prop ctx ''env'' = JStr ''production''
           then stage (cssnano [(''preset'', JStr ''default'')]) unminified
           else unminified)"
  by (simp add: run_pipeline_def active_plugins_exports)

text \<open>
  C10. A minification stage is among the stages exactly when the environment flag is
  the string \<^verbatim>\<open>production\<close>. For every other value, a string that differs from it or a
  value that is no string, the last entry of the array is \<^verbatim>\<open>false\<close> and the chain is the
  three stages without minification.
\<close>

theorem minify_only_for_production_string:
  "(\<exists>options. cssnano options \<in> set (active_plugins (postcss_exports ctx))) =
     (get_prop ctx ''env'' = JStr ''production'')
   \<and> (get_prop ctx ''env'' \<noteq> JStr ''production'' \<longrightarrow>
        plugins (postcss_exports ctx) =
          [Plugin postcss_import, Plugin tailwindcss, Plugin postcss_nested, JFalse]
        \<and> active_plugins (postcss_exports ctx) = [postcss_import, tailwindcss, postcss_nested])"
  by (simp add: active_plugins_exports) (simp add: postcss_exports_def strict_eq_def)

theorem minify_only_for_production_string_witness:
  "active_plugins (postcss_exports []) = [postcss_import, tailwindcss, postcss_nested]
   \<and> active_plugins (postcss_exports [(''env'', JUndefined)]) =
       [postcss_import, tailwindcss, postcss_nested]
   \<and> active_plugins (postcss_exports [(''env'', JStr ''prod'')]) =
       [postcss_import, tailwindcss, postcss_nested]
   \<and> active_plugins (postcss_exports [(''env'', JStr ''PRODUCTION'')]) =
       [postcss_import, tailwindcss, postcss_nested]
   \<and> active_plugins (postcss_exports [(''env'', JBool True)]) =
       [postcss_import, tailwindcss, postcss_nested]
   \<and> active_plugins (postcss_exports [(''env'', JNum 1)]) =
       [postcss_import, tailwindcss, postcss_nested]
   \<and> active_plugins (postcss_exports [(''env'', JObj 0)]) =
       [postcss_import, tailwindcss, postcss_nested]
   \<and> active_plugins (postcss_exports [(''env'', JStr ''production'')]) =
       [postcss_import, tailwindcss, postcss_nested, cssnano [(''preset'', JStr ''default'')]]"
  using minify_only_for_production_string [of "[]"]
    minify_only_for_production_string [of "[(''env'', JUndefined)]"]
    minify_only_for_production_string [of "[(''env'', JStr ''prod'')]"]
    minify_only_for_production_string [of "[(''env'', JStr ''PRODUCTION'')]"]
    minify_only_for_production_string [of "[(''env'', JBool True)]"]
    minify_only_for_production_string [of "[(''env'', JNum 1)]"]
    minify_only_for_production_string [of "[(''env'', JObj 0)]"]
  by (simp add: get_prop_def active_plugins_def postcss_exports_def strict_eq_def)

end
